theory Spec2Isabelle
  imports Complex_Main "HOL-Library.Word" "HOL-Library.Sublist"
begin

section \<open>Package ov: Go bindings of libvorbisfile (audio/ov/vorbisfile.go)\<close>

text \<open>
  The package is a thin cgo layer. Everything behind the C boundary is outside the
  source file, so the model makes it explicit:
  \<^item> every native call is appended to a log (\<open>calls\<close>), in program order;
  \<^item> the value a native function hands back is an argument of the Go function that
    consumes it, named as the source names the local variable (\<open>cres\<close>, \<open>cerr\<close>,
    \<open>vi\<close>);
  \<^item> the C heap is the list of live \<open>malloc\<close> blocks;
  \<^item> a Go panic is the \<open>Inl\<close> branch of the result, with the state at the panic (what a
    caller that recovers goes on with);
  \<^item> a \<open>*File\<close> argument is passed as \<open>File option\<close> (\<open>None\<close> is the nil pointer) and
    the pointee is handed back, updated, in the result.
\<close>

subsection \<open>C and Go scalar types\<close>

type_synonym addr = nat \<comment> \<open>a C address; \<open>0\<close> is \<open>NULL\<close> / Go's \<open>nil\<close>\<close>
type_synonym cint = "32 word" \<comment> \<open>\<open>C.int\<close>\<close>
type_synonym clong = "64 word" \<comment> \<open>\<open>C.long\<close> (LP64)\<close>
type_synonym cint64 = "64 word" \<comment> \<open>\<open>C.ogg_int64_t\<close>\<close>
type_synonym goint = "64 word" \<comment> \<open>Go \<open>int\<close> on a 64-bit platform\<close>
type_synonym goint64 = "64 word" \<comment> \<open>Go \<open>int64\<close>\<close>

text \<open>
  \<open>C.double\<close> / Go \<open>float64\<close>. Only three things are done with such a value in the
  package: it is compared with zero, it is converted to \<open>C.int\<close>, and it is returned.
  Finite values are read as the real number they denote.
\<close>

datatype c_double = Finite real | PosInf | NegInf | NaN

definition double_neg :: "c_double \<Rightarrow> bool" where
  \<comment> \<open>\<open>cres < 0\<close> on a float64: false for NaN\<close>
  "double_neg d = (case d of Finite r \<Rightarrow> r < 0 | NegInf \<Rightarrow> True | PosInf \<Rightarrow> False | NaN \<Rightarrow> False)"

definition trunc_real :: "real \<Rightarrow> int" where
  \<comment> \<open>Go discards the fraction (truncation towards zero)\<close>
  "trunc_real r = (if 0 \<le> r then \<lfloor>r\<rfloor> else \<lceil>r\<rceil>)"

subsection \<open>What the C headers supply\<close>

text \<open>
  The eleven \<open>OV_E...\<close> macros come from \<open>vorbis/codec.h\<close>, which is not part of the
  package; they are taken as parameters. So is the result of a float-to-int conversion
  whose value does not fit the target type, which Go leaves to the implementation.
\<close>

record cenv =
  OV_EREAD :: cint
  OV_EFAULT :: cint
  OV_EIMPL :: cint
  OV_EINVAL :: cint
  OV_ENOTVORBIS :: cint
  OV_EBADHEADER :: cint
  OV_EVERSION :: cint
  OV_ENOTAUDIO :: cint
  OV_EBADPACKET :: cint
  OV_EBADLINK :: cint
  OV_ENOSEEK :: cint
  conv_unrepresentable :: "c_double \<Rightarrow> cint"

definition cint_of_double :: "cenv \<Rightarrow> c_double \<Rightarrow> cint" where
  \<comment> \<open>\<open>C.int(cres)\<close> for a \<open>C.double\<close>\<close>
  "cint_of_double k d =
     (case d of
        Finite r \<Rightarrow>
          (if - (2 ^ 31) \<le> trunc_real r \<and> trunc_real r < 2 ^ 31
           then word_of_int (trunc_real r) else conv_unrepresentable k d)
      | _ \<Rightarrow> conv_unrepresentable k d)"

text \<open>The exported constants, lines 39 to 51.\<close>

definition Eread :: "cenv \<Rightarrow> cint" where "Eread k = OV_EREAD k"
definition Efault :: "cenv \<Rightarrow> cint" where "Efault k = OV_EFAULT k"
definition Eimpl :: "cenv \<Rightarrow> cint" where "Eimpl k = OV_EIMPL k"
definition Einval :: "cenv \<Rightarrow> cint" where "Einval k = OV_EINVAL k"
definition EnotVorbis :: "cenv \<Rightarrow> cint" where "EnotVorbis k = OV_ENOTVORBIS k"
definition EbadHeader :: "cenv \<Rightarrow> cint" where "EbadHeader k = OV_EBADHEADER k"
definition Eversion :: "cenv \<Rightarrow> cint" where "Eversion k = OV_EVERSION k"
definition EnotAudio :: "cenv \<Rightarrow> cint" where "EnotAudio k = OV_ENOTAUDIO k"
definition EbadPacket :: "cenv \<Rightarrow> cint" where "EbadPacket k = OV_EBADPACKET k"
definition EbadLink :: "cenv \<Rightarrow> cint" where "EbadLink k = OV_EBADLINK k"
definition EnoSeek :: "cenv \<Rightarrow> cint" where "EnoSeek k = OV_ENOSEEK k"

definition known_codes :: "cenv \<Rightarrow> cint list" where
  \<comment> \<open>the closed enumeration: every constant of the \<open>const\<close> block\<close>
  "known_codes k =
     [Eread k, Efault k, Eimpl k, Einval k, EnotVorbis k, EbadHeader k, Eversion k,
      EnotAudio k, EbadPacket k, EbadLink k, EnoSeek k]"

subsection \<open>The error table\<close>

definition errCodes_literal :: "cenv \<Rightarrow> (cint \<times> string) list" where
  \<comment> \<open>the map literal of lines 54 to 65, entry by entry\<close>
  "errCodes_literal k =
     [(OV_EREAD k, ''Eread''),
      (OV_EFAULT k, ''Efault''),
      (OV_EIMPL k, ''Eimpl''),
      (OV_EINVAL k, ''Einval''),
      (OV_ENOTVORBIS k, ''EnotVorbis''),
      (OV_EVERSION k, ''Eversion''),
      (OV_ENOTAUDIO k, ''EnotAudio''),
      (OV_EBADPACKET k, ''EbadPacket''),
      (OV_EBADLINK k, ''EbadLink''),
      (OV_ENOSEEK k, ''EnoSeek'')]"

definition errCodes :: "cenv \<Rightarrow> cint \<rightharpoonup> string" where
  "errCodes k = map_of (errCodes_literal k)"

definition errCodes_at :: "cenv \<Rightarrow> cint \<Rightarrow> string" where
  \<comment> \<open>the index expression \<open>errCodes[c]\<close>: a missing key yields the zero value of
      \<open>string\<close>, the empty string\<close>
  "errCodes_at k c = (case errCodes k c of None \<Rightarrow> [] | Some s \<Rightarrow> s)"

definition literal_keys_distinct :: "cenv \<Rightarrow> bool" where
  \<comment> \<open>the Go compiler rejects a map literal with a duplicate constant key\<close>
  "literal_keys_distinct k = distinct (map fst (errCodes_literal k))"

subsection \<open>Process state, native calls, panics and errors\<close>

datatype ccall =
    C_vorbisfile_load
  | C_malloc addr \<comment> \<open>the block returned\<close>
  | C_CString string addr \<comment> \<open>the Go string copied, the block returned\<close>
  | C_free addr
  | C_ov_fopen addr addr \<comment> \<open>cpath, vf\<close>
  | C_ov_clear addr
  | C_ov_read addr addr cint cint cint cint \<comment> \<open>vf, buffer, length, bigendianp, word, sgned\<close>
  | C_ov_info addr cint
  | C_ov_seekable addr
  | C_ov_pcm_seek addr cint64
  | C_ov_pcm_total addr cint
  | C_ov_time_total addr cint
  | C_ov_time_tell addr

record world =
  loaded :: bool \<comment> \<open>the package variable of line 68\<close>
  allocated :: "addr list" \<comment> \<open>live C blocks\<close>
  calls :: "ccall list" \<comment> \<open>native calls made so far, oldest first\<close>

definition world0 :: world where
  \<comment> \<open>process start: \<open>var loaded = false\<close>\<close>
  "world0 = \<lparr>loaded = False, allocated = [], calls = []\<rparr>"

datatype panic =
    PanicMsg string \<comment> \<open>\<open>panic(msg)\<close>\<close>
  | NilDereference \<comment> \<open>the runtime's panic on a field access through a nil pointer\<close>

type_synonym error = "string option" \<comment> \<open>\<open>None\<close> is the nil error, \<open>Some m\<close> is \<open>fmt.Errorf\<close> with text \<open>m\<close>\<close>

record File =
  vf :: addr

record VorbisInfo =
  Version :: goint
  Channels :: goint
  Rate :: goint
  BitrateUpper :: goint
  BitrateNominal :: goint
  BitrateLower :: goint
  BitrateWindow :: goint

record vorbis_info = \<comment> \<open>the C struct \<open>ov_info\<close> points to\<close>
  version :: cint
  channels :: cint
  rate :: clong
  bitrate_upper :: clong
  bitrate_nominal :: clong
  bitrate_lower :: clong
  bitrate_window :: clong

definition native :: "ccall \<Rightarrow> world \<Rightarrow> world" where
  \<comment> \<open>a call into the library is logged\<close>
  "native c w = w\<lparr>calls := calls w @ [c]\<rparr>"

definition fresh_addr :: "addr list \<Rightarrow> addr" where
  "fresh_addr xs = Suc (foldr max xs 0)"

definition malloc :: "world \<Rightarrow> addr \<times> world" where
  \<comment> \<open>cgo's \<open>C.malloc\<close> never returns nil; the block is disjoint from the live ones\<close>
  "malloc w =
     (let a = fresh_addr (allocated w)
      in (a, native (C_malloc a) (w\<lparr>allocated := allocated w @ [a]\<rparr>)))"

definition CString :: "string \<Rightarrow> world \<Rightarrow> addr \<times> world" where
  \<comment> \<open>\<open>C.CString\<close> copies the string into a block obtained from \<open>malloc\<close>\<close>
  "CString s w =
     (let a = fresh_addr (allocated w)
      in (a, native (C_CString s a) (w\<lparr>allocated := allocated w @ [a]\<rparr>)))"

definition free :: "addr \<Rightarrow> world \<Rightarrow> world" where
  \<comment> \<open>\<open>free(NULL)\<close> releases nothing\<close>
  "free a w = native (C_free a) (w\<lparr>allocated := removeAll a (allocated w)\<rparr>)"

definition quoted :: "string \<Rightarrow> string" where
  \<comment> \<open>the text between two apostrophes, as the format strings have it\<close>
  "quoted s = CHR 0x27 # s @ [CHR 0x27]"

subsection \<open>The loader\<close>

definition not_loaded_msg :: string where
  "not_loaded_msg = ''libvorbisfile shared library/dll was not loaded''"

definition checkLoaded :: "world \<Rightarrow> panic option" where
  \<comment> \<open>\<open>None\<close>: the function returns; \<open>Some p\<close>: it panics\<close>
  "checkLoaded w = (if \<not> loaded w then Some (PanicMsg not_loaded_msg) else None)"

definition Load :: "world \<Rightarrow> cint \<Rightarrow> world \<times> error" where
  \<comment> \<open>\<open>cres\<close> is what \<open>vorbisfile_load\<close> returns, if it is called\<close>
  "Load w cres =
     (if loaded w then (w, None)
      else
        let w1 = native C_vorbisfile_load w
        in if cres = 0 then (w1\<lparr>loaded := True\<rparr>, None)
           else (w1, Some ''Error loading libvorbisfile shared library/dll''))"

definition IsLoaded :: "world \<Rightarrow> bool" where
  "IsLoaded w = loaded w"

subsection \<open>The decoder handle\<close>

definition Fopen :: "cenv \<Rightarrow> world \<Rightarrow> string \<Rightarrow> cint \<Rightarrow> (panic \<times> world) + (world \<times> File option \<times> error)" where
  \<comment> \<open>\<open>cerr\<close> is what \<open>ov_fopen\<close> returns. The deferred \<open>free(cpath)\<close> runs on both
      return paths. \<open>f\<close> is a local: on the failure path no reference to it escapes.\<close>
  "Fopen k w path cerr =
     (case checkLoaded w of
        Some p \<Rightarrow> Inl (p, w)
      | None \<Rightarrow>
          let (p, w1) = malloc w;
              f = \<lparr>vf = p\<rparr>;
              (cpath, w2) = CString path w1;
              w3 = native (C_ov_fopen cpath (vf f)) w2
          in if cerr = 0 then Inr (free cpath w3, Some f, None)
             else Inr (free cpath w3, None,
                       Some (''Error:'' @ errCodes_at k cerr @ '' from Fopen'')))"

definition Clear :: "cenv \<Rightarrow> world \<Rightarrow> File option \<Rightarrow> cint \<Rightarrow> (panic \<times> world) + (world \<times> File \<times> error)" where
  \<comment> \<open>\<open>cerr\<close> is what \<open>ov_clear\<close> returns\<close>
  "Clear k w fp cerr =
     (case checkLoaded w of
        Some p \<Rightarrow> Inl (p, w)
      | None \<Rightarrow>
          (case fp of
             None \<Rightarrow> Inl (NilDereference, w)
           | Some f \<Rightarrow>
               let w1 = native (C_ov_clear (vf f)) w
               in if cerr = 0 then Inr (free (vf f) w1, f\<lparr>vf := 0\<rparr>, None)
                  else Inr (w1, f, Some (''Error:'' @ errCodes_at k cerr @ '' from Clear''))))"

definition cbool :: "bool \<Rightarrow> cint" where
  \<comment> \<open>lines 131 to 140: the flag starts at 0 and is set to 1 when the Go bool is true\<close>
  "cbool b = (if b then 1 else 0)"

definition Read ::
  "cenv \<Rightarrow> world \<Rightarrow> File option \<Rightarrow> addr \<Rightarrow> goint \<Rightarrow> bool \<Rightarrow> goint \<Rightarrow> bool \<Rightarrow> clong \<Rightarrow> cint
     \<Rightarrow> (panic \<times> world) + (world \<times> goint \<times> goint \<times> error)" where
  \<comment> \<open>\<open>cres\<close> is what \<open>ov_read\<close> returns and \<open>bitstream\<close> the value of the local the
      library was given the address of, after the call\<close>
  "Read k w fp buffer length' bigendianp word sgned cres bitstream =
     (case checkLoaded w of
        Some p \<Rightarrow> Inl (p, w)
      | None \<Rightarrow>
          (case fp of
             None \<Rightarrow> Inl (NilDereference, w)
           | Some f \<Rightarrow>
               let cbigendianp = cbool bigendianp;
                   csgned = cbool sgned;
                   w1 = native (C_ov_read (vf f) buffer (ucast length') cbigendianp
                                  (ucast word) csgned) w
               in if cres <s 0
                  then Inr (w1, 0, 0,
                            Some (''Error:'' @ errCodes_at k (ucast cres) @ '' from Read()''))
                  else Inr (w1, scast cres, scast bitstream, None)))"

definition Info ::
  "world \<Rightarrow> File option \<Rightarrow> goint \<Rightarrow> VorbisInfo option \<Rightarrow> vorbis_info option
     \<Rightarrow> (panic \<times> world) + (world \<times> VorbisInfo option \<times> error)" where
  \<comment> \<open>\<open>vi\<close> is what \<open>ov_info\<close> returns (\<open>None\<close> is the null pointer); \<open>info\<close> is the
      caller's struct, handed back as the function leaves it\<close>
  "Info w fp link info vi =
     (case checkLoaded w of
        Some p \<Rightarrow> Inl (p, w)
      | None \<Rightarrow>
          (case fp of
             None \<Rightarrow> Inl (NilDereference, w)
           | Some f \<Rightarrow>
               let w1 = native (C_ov_info (vf f) (ucast link)) w
               in (case vi of
                     None \<Rightarrow> Inr (w1, info, Some (''Error returned from '' @ quoted ''ov_info''))
                   | Some v \<Rightarrow>
                       (case info of
                          None \<Rightarrow> Inl (NilDereference, w1)
                        | Some i \<Rightarrow>
                            Inr (w1,
                                 Some (i\<lparr>Version := scast (version v),
                                         Channels := scast (channels v),
                                         Rate := scast (rate v),
                                         BitrateUpper := scast (bitrate_upper v),
                                         BitrateNominal := scast (bitrate_nominal v),
                                         BitrateLower := scast (bitrate_lower v),
                                         BitrateWindow := scast (bitrate_window v)\<rparr>),
                                 None)))))"

definition Seekable :: "world \<Rightarrow> File option \<Rightarrow> clong \<Rightarrow> (panic \<times> world) + (world \<times> bool)" where
  "Seekable w fp cres =
     (case checkLoaded w of
        Some p \<Rightarrow> Inl (p, w)
      | None \<Rightarrow>
          (case fp of
             None \<Rightarrow> Inl (NilDereference, w)
           | Some f \<Rightarrow>
               let w1 = native (C_ov_seekable (vf f)) w
               in if cres = 0 then Inr (w1, False) else Inr (w1, True)))"

definition PcmSeek :: "cenv \<Rightarrow> world \<Rightarrow> File option \<Rightarrow> goint64 \<Rightarrow> cint \<Rightarrow> (panic \<times> world) + (world \<times> error)" where
  "PcmSeek k w fp pos cres =
     (case checkLoaded w of
        Some p \<Rightarrow> Inl (p, w)
      | None \<Rightarrow>
          (case fp of
             None \<Rightarrow> Inl (NilDereference, w)
           | Some f \<Rightarrow>
               let w1 = native (C_ov_pcm_seek (vf f) pos) w
               in if cres = 0 then Inr (w1, None)
                  else Inr (w1, Some (''Error:'' @ errCodes_at k cres @ '' from '' @ quoted ''ov_pcm_seek()''))))"

definition PcmTotal :: "cenv \<Rightarrow> world \<Rightarrow> File option \<Rightarrow> goint \<Rightarrow> cint64 \<Rightarrow> (panic \<times> world) + (world \<times> goint64 \<times> error)" where
  "PcmTotal k w fp i cres =
     (case checkLoaded w of
        Some p \<Rightarrow> Inl (p, w)
      | None \<Rightarrow>
          (case fp of
             None \<Rightarrow> Inl (NilDereference, w)
           | Some f \<Rightarrow>
               let w1 = native (C_ov_pcm_total (vf f) (ucast i)) w
               in if cres <s 0
                  then Inr (w1, 0,
                            Some (''Error:'' @ errCodes_at k (ucast cres) @ '' from ''
                                  @ quoted ''ov_pcm_total()''))
                  else Inr (w1, cres, None)))"

definition TimeTotal :: "cenv \<Rightarrow> world \<Rightarrow> File option \<Rightarrow> goint \<Rightarrow> c_double \<Rightarrow> (panic \<times> world) + (world \<times> c_double \<times> error)" where
  "TimeTotal k w fp i cres =
     (case checkLoaded w of
        Some p \<Rightarrow> Inl (p, w)
      | None \<Rightarrow>
          (case fp of
             None \<Rightarrow> Inl (NilDereference, w)
           | Some f \<Rightarrow>
               let w1 = native (C_ov_time_total (vf f) (ucast i)) w
               in if double_neg cres
                  then Inr (w1, Finite 0,
                            Some (''Error:'' @ errCodes_at k (cint_of_double k cres) @ '' from ''
                                  @ quoted ''ov_time_total()''))
                  else Inr (w1, cres, None)))"

definition TimeTell :: "cenv \<Rightarrow> world \<Rightarrow> File option \<Rightarrow> c_double \<Rightarrow> (panic \<times> world) + (world \<times> c_double \<times> error)" where
  "TimeTell k w fp cres =
     (case checkLoaded w of
        Some p \<Rightarrow> Inl (p, w)
      | None \<Rightarrow>
          (case fp of
             None \<Rightarrow> Inl (NilDereference, w)
           | Some f \<Rightarrow>
               let w1 = native (C_ov_time_tell (vf f)) w
               in if double_neg cres
                  then Inr (w1, Finite 0,
                            Some (''Error:'' @ errCodes_at k (cint_of_double k cres) @ '' from ''
                                  @ quoted ''ov_time_total()''))
                  else Inr (w1, cres, None)))"

subsection \<open>Sequences of calls\<close>

text \<open>
  A caller's run of the package: the process state and the Files it was handed by
  \<open>Fopen\<close>, in the order it got them. A \<open>*File\<close> the caller passes is the position of
  a File it holds, or nil; a position it does not hold stands for no File, as nil does.
  Each call carries what the library answers. After a panic the run goes on from the
  state at the panic, as a caller that recovers does.
\<close>

datatype op =
    Op_Load cint
  | Op_IsLoaded
  | Op_Fopen string cint
  | Op_Clear "nat option" cint
  | Op_Read "nat option" addr goint bool goint bool clong cint
  | Op_Info "nat option" goint "VorbisInfo option" "vorbis_info option"
  | Op_Seekable "nat option" clong
  | Op_PcmSeek "nat option" goint64 cint
  | Op_PcmTotal "nat option" goint cint64
  | Op_TimeTotal "nat option" goint c_double
  | Op_TimeTell "nat option" c_double

record session =
  sworld :: world
  handles :: "File list"

definition session0 :: session where
  "session0 = \<lparr>sworld = world0, handles = []\<rparr>"

definition deref :: "File list \<Rightarrow> nat option \<Rightarrow> File option" where
  "deref hs h = (case h of None \<Rightarrow> None | Some i \<Rightarrow> if i < length hs then Some (hs ! i) else None)"

definition store :: "File list \<Rightarrow> nat option \<Rightarrow> File \<Rightarrow> File list" where
  "store hs h f = (case h of None \<Rightarrow> hs | Some i \<Rightarrow> hs[i := f])"

definition after :: "session \<Rightarrow> (panic \<times> world) + 'a \<Rightarrow> ('a \<Rightarrow> world) \<Rightarrow> session" where
  \<comment> \<open>the process state after a call that leaves the caller's Files as they are\<close>
  "after s r get = (case r of Inl (p, w) \<Rightarrow> s\<lparr>sworld := w\<rparr> | Inr x \<Rightarrow> s\<lparr>sworld := get x\<rparr>)"

fun exec :: "cenv \<Rightarrow> session \<Rightarrow> op \<Rightarrow> session" where
  "exec k s (Op_Load cres) = s\<lparr>sworld := fst (Load (sworld s) cres)\<rparr>"
| "exec k s Op_IsLoaded = s"
| "exec k s (Op_Fopen path cerr) =
     (case Fopen k (sworld s) path cerr of
        Inl (p, w) \<Rightarrow> s\<lparr>sworld := w\<rparr>
      | Inr (w, fp, e) \<Rightarrow>
          (case fp of
             None \<Rightarrow> s\<lparr>sworld := w\<rparr>
           | Some f \<Rightarrow> \<lparr>sworld = w, handles = handles s @ [f]\<rparr>))"
| "exec k s (Op_Clear h cerr) =
     (case Clear k (sworld s) (deref (handles s) h) cerr of
        Inl (p, w) \<Rightarrow> s\<lparr>sworld := w\<rparr>
      | Inr (w, f, e) \<Rightarrow> \<lparr>sworld = w, handles = store (handles s) h f\<rparr>)"
| "exec k s (Op_Read h buffer length' bigendianp word sgned cres bitstream) =
     after s (Read k (sworld s) (deref (handles s) h) buffer length' bigendianp word sgned
                cres bitstream) fst"
| "exec k s (Op_Info h link info vi) = after s (Info (sworld s) (deref (handles s) h) link info vi) fst"
| "exec k s (Op_Seekable h cres) = after s (Seekable (sworld s) (deref (handles s) h) cres) fst"
| "exec k s (Op_PcmSeek h pos cres) = after s (PcmSeek k (sworld s) (deref (handles s) h) pos cres) fst"
| "exec k s (Op_PcmTotal h i cres) = after s (PcmTotal k (sworld s) (deref (handles s) h) i cres) fst"
| "exec k s (Op_TimeTotal h i cres) = after s (TimeTotal k (sworld s) (deref (handles s) h) i cres) fst"
| "exec k s (Op_TimeTell h cres) = after s (TimeTell k (sworld s) (deref (handles s) h) cres) fst"

fun run :: "cenv \<Rightarrow> session \<Rightarrow> op list \<Rightarrow> session" where
  "run k s [] = s"
| "run k s (x # xs) = run k (exec k s x) xs"

fun Loads :: "world \<Rightarrow> cint list \<Rightarrow> world" where
  \<comment> \<open>\<open>Load\<close> called once for each answer of the list\<close>
  "Loads w [] = w"
| "Loads w (cres # rs) = Loads (fst (Load w cres)) rs"

definition resolver_calls :: "world \<Rightarrow> nat" where
  "resolver_calls w = length (filter (\<lambda>c. c = C_vorbisfile_load) (calls w))"

subsection \<open>A concrete platform\<close>

definition codec_h :: cenv where
  \<comment> \<open>the values libvorbis gives the macros; an unrepresentable conversion yields the
      minimum integer, as on amd64\<close>
  "codec_h =
     \<lparr>OV_EREAD = - 128, OV_EFAULT = - 129, OV_EIMPL = - 130, OV_EINVAL = - 131,
      OV_ENOTVORBIS = - 132, OV_EBADHEADER = - 133, OV_EVERSION = - 134,
      OV_ENOTAUDIO = - 135, OV_EBADPACKET = - 136, OV_EBADLINK = - 137, OV_ENOSEEK = - 138,
      conv_unrepresentable = (\<lambda>d. 0x80000000)\<rparr>"

definition world_loaded :: world where
  \<comment> \<open>the state after one successful \<open>Load\<close> at process start\<close>
  "world_loaded = \<lparr>loaded = True, allocated = [], calls = [C_vorbisfile_load]\<rparr>"

definition world_open :: world where
  \<comment> \<open>the state after \<open>Load\<close> and then \<open>Fopen("a.ogg")\<close> have both succeeded\<close>
  "world_open =
     \<lparr>loaded = True, allocated = [1],
      calls = [C_vorbisfile_load, C_malloc 1, C_CString ''a.ogg'' 2, C_ov_fopen 2 1, C_free 2]\<rparr>"

definition file_open :: File where
  \<comment> \<open>the File that \<open>Fopen\<close> returned\<close>
  "file_open = \<lparr>vf = 1\<rparr>"

definition info0 :: VorbisInfo where
  \<comment> \<open>a caller's zero-valued \<open>VorbisInfo\<close>\<close>
  "info0 = \<lparr>Version = 0, Channels = 0, Rate = 0, BitrateUpper = 0, BitrateNominal = 0,
            BitrateLower = 0, BitrateWindow = 0\<rparr>"

definition after_call :: "ccall \<Rightarrow> world" where
  \<comment> \<open>\<open>world_open\<close> after one more native call\<close>
  "after_call c = world_open\<lparr>calls := calls world_open @ [c]\<rparr>"

subsection \<open>Reading an error text\<close>

definition names_in :: "cenv \<Rightarrow> string \<Rightarrow> string list" where
  \<comment> \<open>the names of the error table that occur in a text\<close>
  "names_in k m = filter (\<lambda>n. sublist n m) (map snd (errCodes_literal k))"

subsection \<open>The handle's life cycle, as the specification words it\<close>

text \<open>
  The specification gives a handle a state: it is Open when \<open>Open(path)\<close> returns it,
  which takes a passed loader guard and native success, and it becomes Closed when
  \<open>Close\<close> succeeds natively; a failed \<open>Close\<close> and every other operation leave the state
  as it is. Before \<open>Open\<close> returns there is no handle. This second model tracks only
  that state, per handle in the order of creation, next to the loader flag.
\<close>

datatype lifecycle = Open | Closed

fun spec_lifecycle_step :: "bool \<times> lifecycle list \<Rightarrow> op \<Rightarrow> bool \<times> lifecycle list" where
  "spec_lifecycle_step (ld, ls) (Op_Load cres) = (ld \<or> cres = 0, ls)"
| "spec_lifecycle_step (ld, ls) (Op_Fopen path cerr) =
     (if ld \<and> cerr = 0 then (ld, ls @ [Open]) else (ld, ls))"
| "spec_lifecycle_step (ld, ls) (Op_Clear h cerr) =
     (case h of
        None \<Rightarrow> (ld, ls)
      | Some i \<Rightarrow> if ld \<and> i < length ls \<and> cerr = 0 then (ld, ls[i := Closed]) else (ld, ls))"
| "spec_lifecycle_step (ld, ls) x = (ld, ls)"

fun spec_lifecycle_run :: "bool \<times> lifecycle list \<Rightarrow> op list \<Rightarrow> bool \<times> lifecycle list" where
  "spec_lifecycle_run a [] = a"
| "spec_lifecycle_run a (x # xs) = spec_lifecycle_run (spec_lifecycle_step a x) xs"

definition has_reference :: "File \<Rightarrow> bool" where
  \<comment> \<open>the native reference is not nil\<close>
  "has_reference f = (vf f \<noteq> 0)"

definition matches :: "session \<Rightarrow> bool \<times> lifecycle list \<Rightarrow> bool" where
  \<comment> \<open>the code's state and the specification's agree\<close>
  "matches s a =
     (loaded (sworld s) = fst a \<and> map has_reference (handles s) = map (\<lambda>l. l = Open) (snd a))"


section \<open>Properties\<close>

lemmas op_defs =
  Fopen_def Clear_def Read_def Info_def Seekable_def PcmSeek_def PcmTotal_def TimeTotal_def
  TimeTell_def

lemmas heap_defs = native_def malloc_def CString_def free_def

lemmas table_defs = errCodes_at_def errCodes_def errCodes_literal_def

lemmas const_defs =
  Eread_def Efault_def Eimpl_def Einval_def EnotVorbis_def EbadHeader_def Eversion_def
  EnotAudio_def EbadPacket_def EbadLink_def EnoSeek_def

subsection \<open>Concrete states\<close>

lemma reach_world_open:
  "Load world0 0 = (world_loaded, None) \<and>
   Fopen codec_h world_loaded ''a.ogg'' 0 = Inr (world_open, Some file_open, None)"
  by (simp add: Load_def Fopen_def checkLoaded_def heap_defs fresh_addr_def world0_def
        world_loaded_def world_open_def file_open_def Let_def)

subsection \<open>The allocator\<close>

lemma fresh_addr_nonzero: "fresh_addr xs \<noteq> 0"
  by (simp add: fresh_addr_def)

lemma le_foldr_max: "x \<in> set xs \<Longrightarrow> x \<le> foldr max xs (b::nat)"
  by (induction xs) (auto simp: max_def)

lemma fresh_addr_gt: "x \<in> set xs \<Longrightarrow> x < fresh_addr xs"
  by (simp add: fresh_addr_def le_foldr_max less_Suc_eq_le)

lemma fresh_addr_notin: "fresh_addr xs \<notin> set xs"
  using fresh_addr_gt [of "fresh_addr xs" xs] by blast

lemma fresh_addr_snoc: "fresh_addr (xs @ [fresh_addr xs]) \<noteq> fresh_addr xs"
  using fresh_addr_gt [of "fresh_addr xs" "xs @ [fresh_addr xs]"] by simp

subsection \<open>The loader guard\<close>

text \<open>
  C4. Each of the nine operations other than \<open>Load\<close> and \<open>IsLoaded\<close> panics with the
  "library not loaded" message, before it does anything else, exactly when the loaded
  flag is false: it is a panic and no error value. Once the library is loaded, none of
  them ends in a panic with that message, in whatever state, whatever the arguments and
  whatever the library answers.
\<close>

theorem guard_not_loaded:
  "(Fopen k w path cerr = Inl (PanicMsg not_loaded_msg, w)) = (\<not> loaded w) \<and>
   (Clear k w fp cerr = Inl (PanicMsg not_loaded_msg, w)) = (\<not> loaded w) \<and>
   (Read k w fp buffer len be word sg cres bs = Inl (PanicMsg not_loaded_msg, w)) = (\<not> loaded w) \<and>
   (Info w fp link info vi = Inl (PanicMsg not_loaded_msg, w)) = (\<not> loaded w) \<and>
   (Seekable w fp sres = Inl (PanicMsg not_loaded_msg, w)) = (\<not> loaded w) \<and>
   (PcmSeek k w fp pos pres = Inl (PanicMsg not_loaded_msg, w)) = (\<not> loaded w) \<and>
   (PcmTotal k w fp i tres = Inl (PanicMsg not_loaded_msg, w)) = (\<not> loaded w) \<and>
   (TimeTotal k w fp i dres = Inl (PanicMsg not_loaded_msg, w)) = (\<not> loaded w) \<and>
   (TimeTell k w fp dres = Inl (PanicMsg not_loaded_msg, w)) = (\<not> loaded w) \<and>
   (loaded w \<longrightarrow>
      (\<forall>w'. Fopen k w path cerr \<noteq> Inl (PanicMsg not_loaded_msg, w') \<and>
            Clear k w fp cerr \<noteq> Inl (PanicMsg not_loaded_msg, w') \<and>
            Read k w fp buffer len be word sg cres bs \<noteq> Inl (PanicMsg not_loaded_msg, w') \<and>
            Info w fp link info vi \<noteq> Inl (PanicMsg not_loaded_msg, w') \<and>
            Seekable w fp sres \<noteq> Inl (PanicMsg not_loaded_msg, w') \<and>
            PcmSeek k w fp pos pres \<noteq> Inl (PanicMsg not_loaded_msg, w') \<and>
            PcmTotal k w fp i tres \<noteq> Inl (PanicMsg not_loaded_msg, w') \<and>
            TimeTotal k w fp i dres \<noteq> Inl (PanicMsg not_loaded_msg, w') \<and>
            TimeTell k w fp dres \<noteq> Inl (PanicMsg not_loaded_msg, w')))"
  by (auto simp: op_defs checkLoaded_def Let_def split: option.splits prod.splits)

theorem guard_not_loaded_witness:
  "\<not> loaded world0 \<and>
   Fopen codec_h world0 ''a.ogg'' 0 = Inl (PanicMsg not_loaded_msg, world0) \<and>
   TimeTell codec_h world0 (Some file_open) (Finite 0) = Inl (PanicMsg not_loaded_msg, world0) \<and>
   loaded world_open \<and>
   (\<forall>w'. Fopen codec_h world_open ''a.ogg'' 0 \<noteq> Inl (PanicMsg not_loaded_msg, w') \<and>
         Clear codec_h world_open None 0 \<noteq> Inl (PanicMsg not_loaded_msg, w') \<and>
         Read codec_h world_open None 7 4096 False 2 True 0 0 \<noteq> Inl (PanicMsg not_loaded_msg, w') \<and>
         Info world_open None 0 None None \<noteq> Inl (PanicMsg not_loaded_msg, w') \<and>
         Seekable world_open None 0 \<noteq> Inl (PanicMsg not_loaded_msg, w') \<and>
         PcmSeek codec_h world_open None 0 0 \<noteq> Inl (PanicMsg not_loaded_msg, w') \<and>
         PcmTotal codec_h world_open None 0 0 \<noteq> Inl (PanicMsg not_loaded_msg, w') \<and>
         TimeTotal codec_h world_open None 0 (Finite 0) \<noteq> Inl (PanicMsg not_loaded_msg, w') \<and>
         TimeTell codec_h world_open None (Finite 0) \<noteq> Inl (PanicMsg not_loaded_msg, w'))"
proof -
  have a: "\<not> loaded world0" by (simp add: world0_def)
  have b: "loaded world_open" by (simp add: world_open_def)
  show ?thesis
    using a b
      guard_not_loaded [where k = codec_h and w = world0 and path = "''a.ogg''" and cerr = 0
        and fp = "Some file_open" and dres = "Finite 0"]
      guard_not_loaded [where k = codec_h and w = world_open and path = "''a.ogg''" and cerr = 0
        and fp = None and buffer = 7 and len = 4096 and be = False and word = 2 and sg = True
        and cres = 0 and bs = 0 and link = 0 and info = None and vi = None and sres = 0
        and pos = 0 and pres = 0 and i = 0 and tres = 0 and dres = "Finite 0"]
    by simp
qed

subsection \<open>Load\<close>

lemma Loads_loaded: "loaded w \<Longrightarrow> Loads w rs = w"
  by (induction rs) (simp_all add: Load_def)

lemma Loads_count:
  "\<not> loaded w \<Longrightarrow>
     resolver_calls (Loads w rs) =
       resolver_calls w + length (takeWhile (\<lambda>r. r \<noteq> 0) rs) + (if 0 \<in> set rs then 1 else 0)
     \<and> loaded (Loads w rs) = (0 \<in> set rs)"
proof (induction rs arbitrary: w)
  case Nil
  then show ?case by simp
next
  case (Cons r rs)
  show ?case
  proof (cases "r = 0")
    case True
    then have "loaded (fst (Load w r))" by (simp add: Load_def Let_def)
    then have "Loads (fst (Load w r)) rs = fst (Load w r)" by (rule Loads_loaded)
    with True Cons.prems show ?thesis
      by (simp add: Load_def Let_def resolver_calls_def native_def)
  next
    case False
    with Cons.prems have nl: "\<not> loaded (fst (Load w r))"
      by (simp add: Load_def Let_def native_def)
    have "resolver_calls (fst (Load w r)) = Suc (resolver_calls w)"
      using False Cons.prems by (simp add: Load_def Let_def native_def resolver_calls_def)
    with Cons.IH [OF nl] False show ?thesis by simp
  qed
qed

text \<open>
  C5. \<open>Load\<close> on a loaded library returns nil and calls nothing. Otherwise it calls the
  resolver once; a zero answer sets the flag and returns nil, any other answer leaves
  the flag false and returns an error. Over a sequence of \<open>Load\<close> calls, the resolver
  is called for each answer up to and including the first zero one and never after it.
\<close>

theorem Load_idempotent:
  "Load w cres =
     (if loaded w then (w, None)
      else if cres = 0 then (w\<lparr>loaded := True, calls := calls w @ [C_vorbisfile_load]\<rparr>, None)
      else (w\<lparr>calls := calls w @ [C_vorbisfile_load]\<rparr>,
            Some ''Error loading libvorbisfile shared library/dll''))
   \<and> (loaded w \<longrightarrow> Loads w rs = w)
   \<and> (\<not> loaded w \<longrightarrow>
        resolver_calls (Loads w rs) =
          resolver_calls w + length (takeWhile (\<lambda>r. r \<noteq> 0) rs) + (if 0 \<in> set rs then 1 else 0))
   \<and> (loaded (Loads w rs) = (loaded w \<or> 0 \<in> set rs))"
  using Loads_loaded [of w rs] Loads_count [of w rs]
  by (auto simp: Load_def Let_def native_def)

theorem Load_idempotent_witness:
  "\<not> loaded world0 \<and> resolver_calls (Loads world0 [1, 0, 0, 1]) = 2 \<and>
   loaded (Loads world0 [1, 0, 0, 1]) \<and>
   loaded world_loaded \<and> Loads world_loaded [1, 0, 0, 1] = world_loaded"
  using Load_idempotent [of world0 0 "[1, 0, 0, 1]"] Load_idempotent [of world_loaded 0 "[1, 0, 0, 1]"]
  by (simp add: world0_def world_loaded_def resolver_calls_def)

subsection \<open>The loaded flag over runs\<close>

lemma exec_loaded: "loaded (sworld (exec k s x)) = (loaded (sworld s) \<or> x = Op_Load 0)"
  by (cases x)
     (auto simp: op_defs heap_defs after_def checkLoaded_def Load_def Let_def
           split: option.splits prod.splits sum.splits if_splits)

lemma run_loaded: "loaded (sworld (run k s xs)) = (loaded (sworld s) \<or> Op_Load 0 \<in> set xs)"
  by (induction xs arbitrary: s) (auto simp: exec_loaded)

lemma run_append: "run k s (xs @ ys) = run k (run k s xs) ys"
  by (induction xs arbitrary: s) simp_all

text \<open>
  C6. The flag is false at process start; one call makes it true exactly when it was
  true before or the call is a \<open>Load\<close> whose resolver answers zero; and once
  \<open>IsLoaded\<close> is true after some calls it is true after any further calls.
\<close>

theorem loaded_monotone:
  "\<not> IsLoaded world0 \<and>
   IsLoaded (sworld (exec k s x)) = (IsLoaded (sworld s) \<or> x = Op_Load 0) \<and>
   (IsLoaded (sworld (run k s xs)) \<longrightarrow> IsLoaded (sworld (run k s (xs @ ys))))"
  by (simp add: IsLoaded_def world0_def exec_loaded run_append run_loaded)

theorem loaded_monotone_witness:
  "IsLoaded (sworld (run codec_h session0 [Op_Load 1, Op_Load 0])) \<and>
   IsLoaded (sworld (run codec_h session0
      ([Op_Load 1, Op_Load 0] @ [Op_Fopen ''a.ogg'' 0, Op_Clear (Some 0) 0, Op_Load 1,
                                  Op_TimeTell None NaN])))"
proof -
  have a: "IsLoaded (sworld (run codec_h session0 [Op_Load 1, Op_Load 0]))"
    by (simp add: IsLoaded_def session0_def world0_def Load_def native_def)
  show ?thesis
    using a loaded_monotone [of codec_h session0 Op_IsLoaded "[Op_Load 1, Op_Load 0]"
        "[Op_Fopen ''a.ogg'' 0, Op_Clear (Some 0) 0, Op_Load 1, Op_TimeTell None NaN]"]
    by blast
qed

subsection \<open>Clear\<close>

text \<open>
  C3. With the library loaded, \<open>Clear\<close> on a File calls \<open>ov_clear\<close>. When that answers
  zero it then frees the block, sets the reference to nil and returns nil. When it
  answers anything else, nothing is freed, the File is as it was, and the error returned
  carries the table's name of the answer, with "from Clear".
\<close>

theorem Clear_release:
  "loaded w \<Longrightarrow>
   Clear k w (Some f) cerr =
     (if cerr = 0
      then Inr (w\<lparr>allocated := removeAll (vf f) (allocated w),
                  calls := calls w @ [C_ov_clear (vf f), C_free (vf f)]\<rparr>,
                f\<lparr>vf := 0\<rparr>, None)
      else Inr (w\<lparr>calls := calls w @ [C_ov_clear (vf f)]\<rparr>, f,
                Some (''Error:'' @ errCodes_at k cerr @ '' from Clear'')))"
  by (simp add: Clear_def checkLoaded_def native_def free_def)

theorem Clear_release_witness:
  "loaded world_open \<and>
   Clear codec_h world_open (Some file_open) 0 =
     Inr (\<lparr>loaded = True, allocated = [],
           calls = calls world_open @ [C_ov_clear 1, C_free 1]\<rparr>, \<lparr>vf = 0\<rparr>, None) \<and>
   Clear codec_h world_open (Some file_open) (- 129) =
     Inr (after_call (C_ov_clear 1), file_open, Some ''Error:Efault from Clear'')"
proof -
  have l: "loaded world_open" by (simp add: world_open_def)
  show ?thesis
    using l Clear_release [OF l, of codec_h file_open 0]
      Clear_release [OF l, of codec_h file_open "- 129"]
    by (simp add: world_open_def file_open_def after_call_def table_defs codec_h_def)
qed

subsection \<open>Results that come with an error\<close>

text \<open>
  C10. Whenever \<open>Read\<close>, \<open>PcmTotal\<close>, \<open>TimeTotal\<close> or \<open>TimeTell\<close> returns an error, the
  library's answer was negative and the other results are zero; and with the library
  loaded and a File at hand, a negative answer does make each of them return an error
  with zero results.
\<close>

theorem failure_results_zero:
  "(Read k w fp buffer len be word sg cres bs = Inr (w1, n, b, Some e1) \<longrightarrow> n = 0 \<and> b = 0 \<and> cres <s 0) \<and>
   (PcmTotal k w fp i tres = Inr (w2, samples, Some e2) \<longrightarrow> samples = 0 \<and> tres <s 0) \<and>
   (TimeTotal k w fp i dres = Inr (w3, secs, Some e3) \<longrightarrow> secs = Finite 0 \<and> double_neg dres) \<and>
   (TimeTell k w fp dres' = Inr (w4, pos, Some e4) \<longrightarrow> pos = Finite 0 \<and> double_neg dres') \<and>
   (loaded w \<and> cres <s 0 \<longrightarrow>
      (\<exists>w' e. Read k w (Some f) buffer len be word sg cres bs = Inr (w', 0, 0, Some e))) \<and>
   (loaded w \<and> tres <s 0 \<longrightarrow> (\<exists>w' e. PcmTotal k w (Some f) i tres = Inr (w', 0, Some e))) \<and>
   (loaded w \<and> double_neg dres \<longrightarrow>
      (\<exists>w' e. TimeTotal k w (Some f) i dres = Inr (w', Finite 0, Some e))) \<and>
   (loaded w \<and> double_neg dres' \<longrightarrow>
      (\<exists>w' e. TimeTell k w (Some f) dres' = Inr (w', Finite 0, Some e)))"
  by (auto simp: op_defs checkLoaded_def Let_def split: option.splits if_splits)

theorem failure_results_zero_witness:
  "loaded world_loaded \<and> (- 131 :: clong) <s 0 \<and> double_neg (Finite (- 131)) \<and>
   (\<exists>w' e. Read codec_h world_loaded (Some \<lparr>vf = 1\<rparr>) 7 4096 False 2 True (- 131) 3 =
             Inr (w', 0, 0, Some e)) \<and>
   (\<exists>w' e. PcmTotal codec_h world_loaded (Some \<lparr>vf = 1\<rparr>) 5 (- 131) = Inr (w', 0, Some e)) \<and>
   (\<exists>w' e. TimeTotal codec_h world_loaded (Some \<lparr>vf = 1\<rparr>) 5 (Finite (- 131)) =
             Inr (w', Finite 0, Some e)) \<and>
   (\<exists>w' e. TimeTell codec_h world_loaded (Some \<lparr>vf = 1\<rparr>) (Finite (- 131)) =
             Inr (w', Finite 0, Some e))"
proof -
  have l: "loaded world_loaded" by (simp add: world_loaded_def)
  have n: "(- 131 :: clong) <s 0" by (simp add: word_sless_alt)
  have d: "double_neg (Finite (- 131))" by (simp add: double_neg_def)
  show ?thesis
    using l n d
      failure_results_zero [where k = codec_h and w = world_loaded and cres = "- 131"
        and tres = "- 131" and dres = "Finite (- 131)" and dres' = "Finite (- 131)"
        and f = "\<lparr>vf = 1\<rparr>" and buffer = 7 and len = 4096 and be = False and word = 2
        and sg = True and bs = 3 and i = 5]
    by blast
qed

subsection \<open>Fopen on the failure path\<close>

lemma Fopen_failure_keeps_block:
  "loaded w \<Longrightarrow> cerr \<noteq> 0 \<Longrightarrow>
   \<exists>w' e. Fopen k w path cerr = Inr (w', None, Some e) \<and>
     fresh_addr (allocated w) \<notin> set (allocated w) \<and>
     fresh_addr (allocated w) \<in> set (allocated w') \<and>
     C_malloc (fresh_addr (allocated w)) \<in> set (drop (length (calls w)) (calls w')) \<and>
     C_free (fresh_addr (allocated w)) \<notin> set (drop (length (calls w)) (calls w'))"
  by (simp add: Fopen_def checkLoaded_def heap_defs Let_def fresh_addr_notin fresh_addr_snoc
        fresh_addr_snoc [THEN not_sym])

text \<open>
  C1. The claim is that a failed \<open>Fopen\<close> releases the decoder block it allocated. At
  the input below (library loaded, \<open>ov_fopen\<close> answering \<open>OV_ENOTVORBIS\<close>) the function
  returns nil and the error naming the code, and the only \<open>free\<close> it made is the deferred
  one of the path copy (block 2): the decoder block (block 1) is still live and no File
  refers to it.
\<close>

theorem Fopen_failure_leaks:
  "Fopen codec_h world_loaded ''a.ogg'' (- 132) =
     Inr (\<lparr>loaded = True, allocated = [1],
           calls = [C_vorbisfile_load, C_malloc 1, C_CString ''a.ogg'' 2, C_ov_fopen 2 1, C_free 2]\<rparr>,
          None, Some ''Error:EnotVorbis from Fopen'')"
  by (simp add: Fopen_def checkLoaded_def heap_defs fresh_addr_def world_loaded_def Let_def
        table_defs codec_h_def)

subsection \<open>The error table\<close>

lemma errCodes_at_entry:
  "literal_keys_distinct k \<Longrightarrow> (c, n) \<in> set (errCodes_literal k) \<Longrightarrow> errCodes_at k c = n"
  by (simp add: literal_keys_distinct_def errCodes_at_def errCodes_def map_of_is_SomeI)

lemma errCodes_at_missing:
  "c \<notin> fst ` set (errCodes_literal k) \<Longrightarrow> errCodes_at k c = []"
  by (simp add: errCodes_at_def errCodes_def map_of_eq_None_iff [THEN iffD2])

lemma EbadHeader_unnamed: "errCodes_at codec_h (EbadHeader codec_h) = []"
  by (simp add: EbadHeader_def table_defs codec_h_def)

text \<open>
  C2, as stated, fails: \<open>- 1\<close> is none of the eleven constants, and the table yields the
  empty string for it.
\<close>

theorem errCodes_unknown_counterexample:
  "(- 1 :: cint) \<notin> set (known_codes codec_h) \<and> errCodes_at codec_h (- 1) = []"
  by (simp add: known_codes_def Eread_def Efault_def Eimpl_def Einval_def EnotVorbis_def
        EbadHeader_def Eversion_def EnotAudio_def EbadPacket_def EbadLink_def EnoSeek_def
        table_defs codec_h_def)

text \<open>
  C2, amended. With the keys of the map literal distinct, each of the ten codes that the
  literal lists yields its own name, the ten names differ from each other, and a code
  that is none of the eleven constants yields the empty string.
\<close>

theorem errCodes_names:
  assumes d: "literal_keys_distinct k"
  shows "errCodes_at k (Eread k) = ''Eread'' \<and>
     errCodes_at k (Efault k) = ''Efault'' \<and>
     errCodes_at k (Eimpl k) = ''Eimpl'' \<and>
     errCodes_at k (Einval k) = ''Einval'' \<and>
     errCodes_at k (EnotVorbis k) = ''EnotVorbis'' \<and>
     errCodes_at k (Eversion k) = ''Eversion'' \<and>
     errCodes_at k (EnotAudio k) = ''EnotAudio'' \<and>
     errCodes_at k (EbadPacket k) = ''EbadPacket'' \<and>
     errCodes_at k (EbadLink k) = ''EbadLink'' \<and>
     errCodes_at k (EnoSeek k) = ''EnoSeek'' \<and>
     distinct (map snd (errCodes_literal k)) \<and>
     (c \<notin> set (known_codes k) \<longrightarrow> errCodes_at k c = [])"
proof -
  have 1: "errCodes_at k (Eread k) = ''Eread''"
    by (rule errCodes_at_entry [OF d]) (simp add: errCodes_literal_def const_defs)
  have 2: "errCodes_at k (Efault k) = ''Efault''"
    by (rule errCodes_at_entry [OF d]) (simp add: errCodes_literal_def const_defs)
  have 3: "errCodes_at k (Eimpl k) = ''Eimpl''"
    by (rule errCodes_at_entry [OF d]) (simp add: errCodes_literal_def const_defs)
  have 4: "errCodes_at k (Einval k) = ''Einval''"
    by (rule errCodes_at_entry [OF d]) (simp add: errCodes_literal_def const_defs)
  have 5: "errCodes_at k (EnotVorbis k) = ''EnotVorbis''"
    by (rule errCodes_at_entry [OF d]) (simp add: errCodes_literal_def const_defs)
  have 6: "errCodes_at k (Eversion k) = ''Eversion''"
    by (rule errCodes_at_entry [OF d]) (simp add: errCodes_literal_def const_defs)
  have 7: "errCodes_at k (EnotAudio k) = ''EnotAudio''"
    by (rule errCodes_at_entry [OF d]) (simp add: errCodes_literal_def const_defs)
  have 8: "errCodes_at k (EbadPacket k) = ''EbadPacket''"
    by (rule errCodes_at_entry [OF d]) (simp add: errCodes_literal_def const_defs)
  have 9: "errCodes_at k (EbadLink k) = ''EbadLink''"
    by (rule errCodes_at_entry [OF d]) (simp add: errCodes_literal_def const_defs)
  have 10: "errCodes_at k (EnoSeek k) = ''EnoSeek''"
    by (rule errCodes_at_entry [OF d]) (simp add: errCodes_literal_def const_defs)
  have 11: "distinct (map snd (errCodes_literal k))"
    by (simp add: errCodes_literal_def)
  have 12: "c \<notin> set (known_codes k) \<longrightarrow> errCodes_at k c = []"
  proof
    assume "c \<notin> set (known_codes k)"
    then have "c \<notin> fst ` set (errCodes_literal k)"
      by (simp add: known_codes_def errCodes_literal_def const_defs)
    then show "errCodes_at k c = []" by (rule errCodes_at_missing)
  qed
  from 1 2 3 4 5 6 7 8 9 10 11 12 show ?thesis by blast
qed

theorem errCodes_names_witness:
  "literal_keys_distinct codec_h \<and> (- 1 :: cint) \<notin> set (known_codes codec_h) \<and>
   errCodes_at codec_h (- 131) = ''Einval'' \<and> errCodes_at codec_h (- 1) = []"
proof -
  have a: "literal_keys_distinct codec_h"
    by (simp add: literal_keys_distinct_def errCodes_literal_def codec_h_def)
  have b: "(- 1 :: cint) \<notin> set (known_codes codec_h)"
    by (simp add: known_codes_def Eread_def Efault_def Eimpl_def Einval_def EnotVorbis_def
        EbadHeader_def Eversion_def EnotAudio_def EbadPacket_def EbadLink_def EnoSeek_def
        codec_h_def)
  have c: "Einval codec_h = - 131" by (simp add: Einval_def codec_h_def)
  show ?thesis using a b c errCodes_names [OF a, of "- 1"] by simp
qed

subsection \<open>Read\<close>

text \<open>
  C7, as stated, fails: with a length of 0 and \<open>ov_read\<close> answering \<open>OV_EINVAL\<close>, \<open>Read\<close>
  returns an error and not \<open>(0, bitstream, nil)\<close>.
\<close>

theorem Read_zero_length_counterexample:
  "Read codec_h world_open (Some file_open) 7 0 False 2 True (- 131) 0 =
     Inr (world_open\<lparr>calls := calls world_open @ [C_ov_read 1 7 0 0 2 1]\<rparr>, 0, 0,
          Some ''Error:Einval from Read()'')"
  by (simp add: Read_def checkLoaded_def native_def world_open_def file_open_def cbool_def
        table_defs codec_h_def word_sless_alt)

text \<open>
  C7, amended. With the library loaded, \<open>Read\<close> on a File calls \<open>ov_read\<close> once, passing
  the length and the word size converted to \<open>C.int\<close> and each flag as 1 when true and 0
  when false. A negative answer gives \<open>(0, 0, error)\<close>, the error naming the table's entry
  for the answer, with "from Read()"; any other answer gives the answer, the library's
  bitstream index and nil. So zero bytes and no error come back exactly when the library
  answers 0, whatever the length.
\<close>

theorem Read_result:
  "loaded w \<Longrightarrow>
   Read k w (Some f) buffer len be word sg cres bs =
     Inr (w\<lparr>calls := calls w @
               [C_ov_read (vf f) buffer (ucast len) (if be then 1 else 0) (ucast word)
                  (if sg then 1 else 0)]\<rparr>,
          if cres <s 0 then 0 else cres,
          if cres <s 0 then 0 else scast bs,
          if cres <s 0 then Some (''Error:'' @ errCodes_at k (ucast cres) @ '' from Read()'')
          else None) \<and>
   (\<exists>w' b. Read k w (Some f) buffer len be word sg cres bs = Inr (w', 0, b, None)) = (cres = 0)"
  by (auto simp: Read_def checkLoaded_def native_def cbool_def)

theorem Read_result_witness:
  "loaded world_open \<and>
   Read codec_h world_open (Some file_open) 7 4096 False 2 True 4096 0 =
     Inr (after_call (C_ov_read 1 7 4096 0 2 1), 4096, 0, None) \<and>
   Read codec_h world_open (Some file_open) 7 4096 True 2 False 0 (- 1) =
     Inr (after_call (C_ov_read 1 7 4096 1 2 0), 0, - 1, None) \<and>
   Read codec_h world_open (Some file_open) 7 4096 False 2 True (- 137) 0 =
     Inr (after_call (C_ov_read 1 7 4096 0 2 1), 0, 0, Some ''Error:EbadLink from Read()'')"
proof -
  have l: "loaded world_open" by (simp add: world_open_def)
  show ?thesis
    using l Read_result [OF l, of codec_h file_open 7 4096 False 2 True 4096 0]
      Read_result [OF l, of codec_h file_open 7 4096 True 2 False 0 "- 1"]
      Read_result [OF l, of codec_h file_open 7 4096 False 2 True "- 137" 0]
    by (simp add: file_open_def after_call_def table_defs codec_h_def word_sless_alt)
qed

subsection \<open>Error texts\<close>

text \<open>
  C9, as stated, fails: the error of \<open>Info\<close> carries no name of the error table.
\<close>

theorem Info_error_counterexample:
  "Info world_open (Some file_open) 0 (Some info0) None =
     Inr (world_open\<lparr>calls := calls world_open @ [C_ov_info 1 0]\<rparr>, Some info0,
          Some (''Error returned from '' @ quoted ''ov_info'')) \<and>
   names_in codec_h (''Error returned from '' @ quoted ''ov_info'') = []"
  by (simp add: Info_def checkLoaded_def native_def world_open_def file_open_def names_in_def
        errCodes_literal_def quoted_def sublist_code)

text \<open>
  C9, amended. The error of \<open>Fopen\<close>, \<open>Clear\<close>, \<open>Read\<close>, \<open>PcmSeek\<close>, \<open>PcmTotal\<close> and
  \<open>TimeTotal\<close> is "Error:", the table's entry for the native code, " from " and a label
  of that operation; the error of \<open>Info\<close> is a fixed text that names \<open>ov_info\<close> and
  carries no code; the error of \<open>TimeTell\<close> is "Error:", the table's entry for the
  native code, " from " and a label.
\<close>

theorem error_texts:
  "(Fopen k w path cerr = Inr (w1, fp1, Some m1) \<longrightarrow>
      m1 = ''Error:'' @ errCodes_at k cerr @ '' from Fopen'') \<and>
   (Clear k w fp cerr = Inr (w2, f2, Some m2) \<longrightarrow>
      m2 = ''Error:'' @ errCodes_at k cerr @ '' from Clear'') \<and>
   (Read k w fp buffer len be word sg cres bs = Inr (w3, n3, b3, Some m3) \<longrightarrow>
      m3 = ''Error:'' @ errCodes_at k (ucast cres) @ '' from Read()'') \<and>
   (Info w fp link info vi = Inr (w4, info4, Some m4) \<longrightarrow>
      m4 = ''Error returned from '' @ quoted ''ov_info'') \<and>
   (PcmSeek k w fp pos pres = Inr (w5, Some m5) \<longrightarrow>
      m5 = ''Error:'' @ errCodes_at k pres @ '' from '' @ quoted ''ov_pcm_seek()'') \<and>
   (PcmTotal k w fp i tres = Inr (w6, n6, Some m6) \<longrightarrow>
      m6 = ''Error:'' @ errCodes_at k (ucast tres) @ '' from '' @ quoted ''ov_pcm_total()'') \<and>
   (TimeTotal k w fp i dres = Inr (w7, t7, Some m7) \<longrightarrow>
      m7 = ''Error:'' @ errCodes_at k (cint_of_double k dres) @ '' from ''
           @ quoted ''ov_time_total()'') \<and>
   (TimeTell k w fp dres' = Inr (w8, t8, Some m8) \<longrightarrow>
      (\<exists>label. m8 = ''Error:'' @ errCodes_at k (cint_of_double k dres') @ '' from '' @ label))"
  by (auto simp: op_defs checkLoaded_def Let_def split: option.splits if_splits prod.splits)

theorem error_texts_witness:
  "Fopen codec_h world_open ''b.ogg'' (- 131) =
     Inr (\<lparr>loaded = True, allocated = [1, 2],
           calls = calls world_open @ [C_malloc 2, C_CString ''b.ogg'' 3, C_ov_fopen 3 2, C_free 3]\<rparr>,
          None, Some ''Error:Einval from Fopen'') \<and>
   Clear codec_h world_open (Some file_open) (- 131) =
     Inr (after_call (C_ov_clear 1), file_open, Some ''Error:Einval from Clear'') \<and>
   Read codec_h world_open (Some file_open) 7 4096 False 2 True (- 131) 0 =
     Inr (after_call (C_ov_read 1 7 4096 0 2 1), 0, 0, Some ''Error:Einval from Read()'') \<and>
   Info world_open (Some file_open) 0 (Some info0) None =
     Inr (after_call (C_ov_info 1 0), Some info0, Some (''Error returned from '' @ quoted ''ov_info'')) \<and>
   PcmSeek codec_h world_open (Some file_open) 0 (- 138) =
     Inr (after_call (C_ov_pcm_seek 1 0),
          Some (''Error:EnoSeek from '' @ quoted ''ov_pcm_seek()'')) \<and>
   PcmTotal codec_h world_open (Some file_open) 5 (- 131) =
     Inr (after_call (C_ov_pcm_total 1 5), 0,
          Some (''Error:Einval from '' @ quoted ''ov_pcm_total()'')) \<and>
   TimeTotal codec_h world_open (Some file_open) 5 (Finite (- 131)) =
     Inr (after_call (C_ov_time_total 1 5), Finite 0,
          Some (''Error:Einval from '' @ quoted ''ov_time_total()'')) \<and>
   (\<exists>label. TimeTell codec_h world_open (Some file_open) (Finite (- 131)) =
     Inr (after_call (C_ov_time_tell 1), Finite 0, Some (''Error:Einval from '' @ label)))"
proof -
  have c: "cint_of_double codec_h (Finite (- 131)) = - 131"
    by (simp add: cint_of_double_def trunc_real_def)
  have n: "(- 131 :: 64 word) <s 0" by (simp add: word_sless_alt)
  have e: "errCodes_at codec_h (- 131) = ''Einval''" "errCodes_at codec_h (- 138) = ''EnoSeek''"
    by (simp_all add: table_defs codec_h_def)
  have a1: "Fopen codec_h world_open ''b.ogg'' (- 131) =
     Inr (\<lparr>loaded = True, allocated = [1, 2],
           calls = calls world_open @ [C_malloc 2, C_CString ''b.ogg'' 3, C_ov_fopen 3 2, C_free 3]\<rparr>,
          None, Some ''Error:Einval from Fopen'')"
    by (simp add: Fopen_def checkLoaded_def heap_defs fresh_addr_def world_open_def Let_def e)
  have a2: "Clear codec_h world_open (Some file_open) (- 131) =
     Inr (after_call (C_ov_clear 1), file_open, Some ''Error:Einval from Clear'')"
    by (simp add: Clear_def checkLoaded_def native_def world_open_def file_open_def after_call_def e)
  have a3: "Read codec_h world_open (Some file_open) 7 4096 False 2 True (- 131) 0 =
     Inr (after_call (C_ov_read 1 7 4096 0 2 1), 0, 0, Some ''Error:Einval from Read()'')"
    by (simp add: Read_def checkLoaded_def native_def world_open_def file_open_def after_call_def
          cbool_def n table_defs codec_h_def)
  have a4: "Info world_open (Some file_open) 0 (Some info0) None =
     Inr (after_call (C_ov_info 1 0), Some info0, Some (''Error returned from '' @ quoted ''ov_info''))"
    by (simp add: Info_def checkLoaded_def native_def world_open_def file_open_def after_call_def)
  have a5: "PcmSeek codec_h world_open (Some file_open) 0 (- 138) =
     Inr (after_call (C_ov_pcm_seek 1 0), Some (''Error:EnoSeek from '' @ quoted ''ov_pcm_seek()''))"
    by (simp add: PcmSeek_def checkLoaded_def native_def world_open_def file_open_def
          after_call_def e)
  have a6: "PcmTotal codec_h world_open (Some file_open) 5 (- 131) =
     Inr (after_call (C_ov_pcm_total 1 5), 0, Some (''Error:Einval from '' @ quoted ''ov_pcm_total()''))"
    by (simp add: PcmTotal_def checkLoaded_def native_def world_open_def file_open_def
          after_call_def n table_defs codec_h_def)
  have a7: "TimeTotal codec_h world_open (Some file_open) 5 (Finite (- 131)) =
     Inr (after_call (C_ov_time_total 1 5), Finite 0,
          Some (''Error:Einval from '' @ quoted ''ov_time_total()''))"
    by (simp add: TimeTotal_def checkLoaded_def native_def world_open_def file_open_def
          after_call_def e c double_neg_def)
  have a8: "TimeTell codec_h world_open (Some file_open) (Finite (- 131)) =
     Inr (after_call (C_ov_time_tell 1), Finite 0,
          Some (''Error:Einval from '' @ quoted ''ov_time_total()''))"
    by (simp add: TimeTell_def checkLoaded_def native_def world_open_def file_open_def
          after_call_def e c double_neg_def)
  note t = error_texts [where k = codec_h and w = world_open and fp = "Some file_open"
      and path = "''b.ogg''" and cerr = "- 131"
      and ?w1.0 = "\<lparr>loaded = True, allocated = [1, 2],
           calls = calls world_open @ [C_malloc 2, C_CString ''b.ogg'' 3, C_ov_fopen 3 2, C_free 3]\<rparr>"
      and ?fp1.0 = None and ?m1.0 = "''Error:Einval from Fopen''"
      and ?w2.0 = "after_call (C_ov_clear 1)" and ?f2.0 = file_open
      and ?m2.0 = "''Error:Einval from Clear''"
      and buffer = 7 and len = 4096 and be = False and word = 2 and sg = True and cres = "- 131"
      and bs = 0 and ?w3.0 = "after_call (C_ov_read 1 7 4096 0 2 1)" and ?n3.0 = 0 and ?b3.0 = 0
      and ?m3.0 = "''Error:Einval from Read()''"
      and link = 0 and info = "Some info0" and vi = None and ?w4.0 = "after_call (C_ov_info 1 0)"
      and ?info4.0 = "Some info0" and ?m4.0 = "''Error returned from '' @ quoted ''ov_info''"
      and pos = 0 and pres = "- 138" and ?w5.0 = "after_call (C_ov_pcm_seek 1 0)"
      and ?m5.0 = "''Error:EnoSeek from '' @ quoted ''ov_pcm_seek()''"
      and i = 5 and tres = "- 131" and ?w6.0 = "after_call (C_ov_pcm_total 1 5)" and ?n6.0 = 0
      and ?m6.0 = "''Error:Einval from '' @ quoted ''ov_pcm_total()''"
      and dres = "Finite (- 131)" and ?w7.0 = "after_call (C_ov_time_total 1 5)"
      and ?t7.0 = "Finite 0" and ?m7.0 = "''Error:Einval from '' @ quoted ''ov_time_total()''"
      and dres' = "Finite (- 131)" and ?w8.0 = "after_call (C_ov_time_tell 1)"
      and ?t8.0 = "Finite 0" and ?m8.0 = "''Error:Einval from '' @ quoted ''ov_time_total()''"]
  show ?thesis using t a1 a2 a3 a4 a5 a6 a7 a8 by simp
qed

subsection \<open>Handles and their references\<close>

lemma exec_handles_other:
  "\<not> (\<exists>p c. x = Op_Fopen p c) \<Longrightarrow> \<not> (\<exists>h c. x = Op_Clear h c) \<Longrightarrow> handles (exec k s x) = handles s"
  by (cases x) (auto simp: after_def split: sum.splits prod.splits)

lemma matches_step:
  assumes "matches s a"
  shows "matches (exec k s x) (spec_lifecycle_step a x)"
proof -
  obtain ld ls where a: "a = (ld, ls)" by (cases a)
  from assms a have ld: "loaded (sworld s) = ld"
    and hs: "map has_reference (handles s) = map (\<lambda>l. l = Open) ls"
    by (simp_all add: matches_def)
  from hs have len: "length (handles s) = length ls" by (rule map_eq_imp_length_eq)
  show ?thesis
  proof (cases x)
    case (Op_Fopen path cerr)
    then show ?thesis using ld hs a
      by (auto simp: matches_def Fopen_def checkLoaded_def heap_defs Let_def has_reference_def
            fresh_addr_nonzero)
  next
    case (Op_Clear h cerr)
    then show ?thesis using ld hs a len
      by (auto simp: matches_def Clear_def checkLoaded_def heap_defs Let_def has_reference_def
            deref_def store_def map_update split: option.splits)
  next
    case (Op_Load cres)
    then show ?thesis using ld hs a
      by (auto simp: matches_def Load_def native_def Let_def)
  qed (use ld hs a exec_loaded [of k s x] exec_handles_other [of x k s] in \<open>auto simp: matches_def\<close>)
qed

lemma matches_run: "matches s a \<Longrightarrow> matches (run k s xs) (spec_lifecycle_run a xs)"
  by (induction xs arbitrary: s a) (simp_all add: matches_step)

text \<open>
  C8. Over every run of the package from process start, the Files the caller holds are,
  one for one, those the specification's life cycle tracks, and a File's reference is
  not nil exactly when its state there is Open. Step by step: a File returned by
  \<open>Fopen\<close> has a reference and comes with a nil error and a zero native answer; a
  nonzero native answer makes \<open>Fopen\<close> return nil with an error; and a \<open>Clear\<close> that the
  library answers with zero leaves the File without a reference.
\<close>

theorem handle_reference_iff_open:
  "map has_reference (handles (run k session0 xs)) =
     map (\<lambda>l. l = Open) (snd (spec_lifecycle_run (False, []) xs)) \<and>
   (Fopen k w path cerr = Inr (w1, Some f1, e1) \<longrightarrow> has_reference f1 \<and> cerr = 0 \<and> e1 = None) \<and>
   (loaded w \<and> cerr \<noteq> 0 \<longrightarrow> (\<exists>w' e. Fopen k w path cerr = Inr (w', None, Some e))) \<and>
   (Clear k w fp 0 = Inr (w2, f2, e2) \<longrightarrow> \<not> has_reference f2 \<and> e2 = None)"
proof -
  have "matches session0 (False, [])"
    by (simp add: matches_def session0_def world0_def)
  then have "matches (run k session0 xs) (spec_lifecycle_run (False, []) xs)"
    by (rule matches_run)
  then have 1: "map has_reference (handles (run k session0 xs)) =
     map (\<lambda>l. l = Open) (snd (spec_lifecycle_run (False, []) xs))"
    by (simp add: matches_def)
  have 2: "Fopen k w path cerr = Inr (w1, Some f1, e1) \<longrightarrow> has_reference f1 \<and> cerr = 0 \<and> e1 = None"
    by (auto simp: Fopen_def checkLoaded_def heap_defs Let_def has_reference_def fresh_addr_def
          split: if_splits)
  have 3: "loaded w \<and> cerr \<noteq> 0 \<longrightarrow> (\<exists>w' e. Fopen k w path cerr = Inr (w', None, Some e))"
    by (auto simp: Fopen_def checkLoaded_def heap_defs Let_def)
  have 4: "Clear k w fp 0 = Inr (w2, f2, e2) \<longrightarrow> \<not> has_reference f2 \<and> e2 = None"
    by (auto simp: Clear_def checkLoaded_def heap_defs Let_def has_reference_def
          split: if_splits option.splits)
  from 1 2 3 4 show ?thesis by blast
qed

theorem handle_reference_iff_open_witness:
  "Fopen codec_h world_loaded ''a.ogg'' 0 =
     Inr (\<lparr>loaded = True, allocated = [1],
           calls = [C_vorbisfile_load, C_malloc 1, C_CString ''a.ogg'' 2, C_ov_fopen 2 1, C_free 2]\<rparr>,
          Some \<lparr>vf = 1\<rparr>, None) \<and>
   has_reference \<lparr>vf = 1\<rparr> \<and>
   loaded world_loaded \<and> (- 132 :: cint) \<noteq> 0 \<and>
   (\<exists>w' e. Fopen codec_h world_loaded ''a.ogg'' (- 132) = Inr (w', None, Some e)) \<and>
   Clear codec_h (world_loaded\<lparr>allocated := [1]\<rparr>) (Some \<lparr>vf = 1\<rparr>) 0 =
     Inr (\<lparr>loaded = True, allocated = [],
           calls = [C_vorbisfile_load, C_ov_clear 1, C_free 1]\<rparr>, \<lparr>vf = 0\<rparr>, None) \<and>
   \<not> has_reference \<lparr>vf = 0\<rparr> \<and>
   map has_reference (handles (run codec_h session0
      [Op_Load 0, Op_Fopen ''a'' 0, Op_Fopen ''b'' 1, Op_Clear (Some 0) 0, Op_Fopen ''c'' 0,
       Op_Clear (Some 1) 3])) = [False, True]"
proof -
  have a: "Fopen codec_h world_loaded ''a.ogg'' 0 =
     Inr (\<lparr>loaded = True, allocated = [1],
           calls = [C_vorbisfile_load, C_malloc 1, C_CString ''a.ogg'' 2, C_ov_fopen 2 1, C_free 2]\<rparr>,
          Some \<lparr>vf = 1\<rparr>, None)"
    by (simp add: Fopen_def checkLoaded_def heap_defs fresh_addr_def world_loaded_def Let_def)
  have b: "loaded world_loaded \<and> (- 132 :: cint) \<noteq> 0"
    by (simp add: world_loaded_def)
  have c: "Clear codec_h (world_loaded\<lparr>allocated := [1]\<rparr>) (Some \<lparr>vf = 1\<rparr>) 0 =
     Inr (\<lparr>loaded = True, allocated = [],
           calls = [C_vorbisfile_load, C_ov_clear 1, C_free 1]\<rparr>, \<lparr>vf = 0\<rparr>, None)"
    by (simp add: Clear_def checkLoaded_def heap_defs world_loaded_def Let_def)
  have d: "snd (spec_lifecycle_run (False, [])
      [Op_Load 0, Op_Fopen ''a'' 0, Op_Fopen ''b'' 1, Op_Clear (Some 0) 0, Op_Fopen ''c'' 0,
       Op_Clear (Some 1) 3]) = [Closed, Open]"
    by simp
  note t = handle_reference_iff_open [where k = codec_h and w = world_loaded and path = "''a.ogg''"]
  show ?thesis
    using a b c d
      t [where cerr = 0 and ?w1.0 = "\<lparr>loaded = True, allocated = [1],
           calls = [C_vorbisfile_load, C_malloc 1, C_CString ''a.ogg'' 2, C_ov_fopen 2 1, C_free 2]\<rparr>"
         and ?f1.0 = "\<lparr>vf = 1\<rparr>" and ?e1.0 = None and xs = "[]"]
      t [where cerr = "- 132" and xs = "[Op_Load 0, Op_Fopen ''a'' 0, Op_Fopen ''b'' 1, Op_Clear (Some 0) 0, Op_Fopen ''c'' 0,
       Op_Clear (Some 1) 3]"]
      handle_reference_iff_open [where k = codec_h and w = "world_loaded\<lparr>allocated := [1]\<rparr>"
         and fp = "Some \<lparr>vf = 1\<rparr>" and ?w2.0 = "\<lparr>loaded = True, allocated = [],
           calls = [C_vorbisfile_load, C_ov_clear 1, C_free 1]\<rparr>" and ?f2.0 = "\<lparr>vf = 0\<rparr>"
         and ?e2.0 = None and xs = "[]"]
    by simp
qed

end
